theory Spec2Isabelle
  imports Main "HOL-Library.Word"
begin

section \<open>Azoth DAO: confidential governance over encrypted handles\<close>

text \<open>
  The contracts are those documented in \<^verbatim>\<open>apps/inco-lite-template/INCO_INTEGRATION.md\<close>
  (CUSDCMarketplace, ConfidentialVault, ConfidentialGovernanceToken, AzothDAO), the second
  vault deposit is the one of \<^verbatim>\<open>PROJECT_SUMMARY.md\<close>, and the session-key wrappers are
  those of the front end (\<^verbatim>\<open>utils/inco.ts\<close> and the \<^verbatim>\<open>useSessionKey\<close> hook).
  Every external call is one atomic transaction: a revert is a value \<open>Inl e\<close> and leaves
  the state as it was.
\<close>

subsection \<open>Values, principals, errors\<close>

type_synonym address = nat
type_synonym handle = nat
type_synonym uint256 = "256 word"

text \<open>Plaintext \<^verbatim>\<open>uint256\<close> values of the contracts are naturals below \<open>2 ^ 256\<close>;
  checked arithmetic reverts with \<open>Panic\<close> beyond that bound. The errors are the custom
  errors of the four contracts; the source does not show what the modifiers
  \<^verbatim>\<open>onlyMember\<close> and \<^verbatim>\<open>onlyAuthorizedVault\<close> revert with, so their errors carry the
  names of the modifiers. \<^verbatim>\<open>nonReentrant\<close> and the events have no effect on the storage.\<close>

definition MAX_UINT256 :: nat where
  "MAX_UINT256 = 2 ^ 256 - 1"

datatype error =
    MustSendETH
  | NotDAOMember
  | InsufficientETH
  | NoVotingPower
  | FeeTooLow
  | InvalidRecipient
  | ProposalNotActive
  | VotingNotStarted
  | VotingEnded
  | AlreadyVoted
  | VotingNotEnded
  | AlreadyExecutedOrCanceled
  | OnlyMember
  | OnlyAuthorizedVault
  | Panic

datatype ProposalState = Pending | Active | Canceled | Defeated | Succeeded | Queued | Executed

datatype VotingMode = Normal | Quadratic

datatype VoteType = Against | For | Abstain

subsection \<open>The encryption engine and its access-control list\<close>

text \<open>
  Modelled from the spec: the encryption engine (the Inco library \<^verbatim>\<open>e\<close>) is an external
  collaborator, not code of the repository. A handle is an opaque reference issued by the
  engine; the zero handle is the uninitialised sentinel and reads as plaintext zero; every
  conversion and every arithmetic operation produces a new handle and never mutates one in
  place; arithmetic on plaintexts wraps around at \<open>2 ^ 256\<close>; a grant is a pair (handle,
  principal), grants are additive. Division by an encrypted zero yields zero here.
\<close>

record engine =
  counter :: nat
  plain :: "handle \<Rightarrow> uint256"
  acl :: "(handle \<times> address) set"

definition fresh :: "uint256 \<Rightarrow> engine \<Rightarrow> handle \<times> engine" where
  "fresh v e = (Suc (counter e), e\<lparr>counter := Suc (counter e), plain := (plain e)(Suc (counter e) := v)\<rparr>)"

definition asEuint256 :: "nat \<Rightarrow> engine \<Rightarrow> handle \<times> engine" where
  "asEuint256 n e = fresh (of_nat n) e"

definition asEbool :: "bool \<Rightarrow> engine \<Rightarrow> handle \<times> engine" where
  "asEbool b e = fresh (if b then 1 else 0) e"

definition reencryptFromBytes :: "uint256 \<Rightarrow> engine \<Rightarrow> handle \<times> engine" where
  "reencryptFromBytes v e = fresh v e"

definition eadd :: "handle \<Rightarrow> handle \<Rightarrow> engine \<Rightarrow> handle \<times> engine" where
  "eadd a b e = fresh (plain e a + plain e b) e"

definition esub :: "handle \<Rightarrow> handle \<Rightarrow> engine \<Rightarrow> handle \<times> engine" where
  "esub a b e = fresh (plain e a - plain e b) e"

definition emul :: "handle \<Rightarrow> handle \<Rightarrow> engine \<Rightarrow> handle \<times> engine" where
  "emul a b e = fresh (plain e a * plain e b) e"

definition ediv :: "handle \<Rightarrow> handle \<Rightarrow> engine \<Rightarrow> handle \<times> engine" where
  "ediv a b e = fresh (plain e a div plain e b) e"

definition allow :: "handle \<Rightarrow> address \<Rightarrow> engine \<Rightarrow> engine" where
  "allow h p e = e\<lparr>acl := insert (h, p) (acl e)\<rparr>"

definition isAuthorized :: "engine \<Rightarrow> handle \<Rightarrow> address \<Rightarrow> bool" where
  "isAuthorized e h p = ((h, p) \<in> acl e)"

subsection \<open>Deployment parameters and contract storage\<close>

text \<open>
  The addresses of the four contracts and the plaintext constants the snippets use but do
  not define are parameters. \<open>allowThis\<close> inside a contract is \<open>allow\<close> to that
  contract's own address.
\<close>

record config =
  marketplace :: address
  vault :: address
  cgov :: address
  dao :: address
  EXCHANGE_RATE :: nat
  DECIMAL_OFFSET :: nat
  VIRTUAL_SHARES :: nat
  VIRTUAL_ASSETS :: nat
  mintPrice :: nat
  votingDelay :: nat
  votingPeriod :: nat
  fee :: nat

record Proposal =
  idP :: nat
  proposer :: address
  description :: string
  requestedAmount :: handle
  recipient :: address
  startBlock :: nat
  endBlock :: nat
  queuedTime :: nat
  forVotes :: handle
  againstVotes :: handle
  abstainVotes :: handle
  state :: ProposalState
  votingMode :: VotingMode
  executed :: bool

record Receipt =
  hasVoted :: bool
  votes :: handle
  support :: VoteType

record world =
  eng :: engine
  cusdc_balances :: "address \<Rightarrow> handle"
  totalMinted :: handle
  totalAssets :: handle
  totalShares :: handle
  shares :: "address \<Rightarrow> handle"
  gov_balances :: "address \<Rightarrow> handle"
  totalSupply :: handle
  hasVotingPowerFlag :: "address \<Rightarrow> handle"
  hasHeldToken :: "address \<Rightarrow> bool"
  isMember :: "address \<Rightarrow> bool"
  proposalCount :: nat
  proposals :: "nat \<Rightarrow> Proposal"
  receipts :: "nat \<Rightarrow> address \<Rightarrow> Receipt"

subsection \<open>CUSDCMarketplace\<close>

text \<open>\<^verbatim>\<open>purchaseCUSDC()\<close>, called by \<open>sender\<close> with \<open>msg.value = val\<close>.\<close>

definition purchaseCUSDC :: "config \<Rightarrow> address \<Rightarrow> nat \<Rightarrow> world \<Rightarrow> error + world" where
  "purchaseCUSDC cfg sender val s =
     (if val = 0 then Inl MustSendETH
      else if val * EXCHANGE_RATE cfg > MAX_UINT256 then Inl Panic
      else
        let cUSDCAmount = (val * EXCHANGE_RATE cfg) div 10 ^ 18;
            (encryptedAmount, e1) = asEuint256 cUSDCAmount (eng s);
            (newBalance, e2) =
               (if cusdc_balances s sender = 0 then (encryptedAmount, e1)
                else eadd (cusdc_balances s sender) encryptedAmount e1);
            (newTotalMinted, e3) = eadd (totalMinted s) encryptedAmount e2;
            e4 = allow newBalance (marketplace cfg) e3;
            e5 = allow newBalance sender e4;
            e6 = allow newTotalMinted (marketplace cfg) e5
        in Inr (s\<lparr>eng := e6,
                   cusdc_balances := (cusdc_balances s)(sender := newBalance),
                   totalMinted := newTotalMinted\<rparr>))"

text \<open>\<^verbatim>\<open>balanceOf(user)\<close> returns the stored handle, not a plaintext.\<close>

definition cusdc_balanceOf :: "world \<Rightarrow> address \<Rightarrow> handle" where
  "cusdc_balanceOf s user = cusdc_balances s user"

text \<open>\<^verbatim>\<open>vaultTransfer(from, amount)\<close>, callable by the authorised vault only; it
  returns the handle it was given.\<close>

definition vaultTransfer :: "config \<Rightarrow> address \<Rightarrow> address \<Rightarrow> handle \<Rightarrow> world \<Rightarrow> error + (handle \<times> world)" where
  "vaultTransfer cfg caller from amount s =
     (if caller \<noteq> vault cfg then Inl OnlyAuthorizedVault
      else
        let userBalance = cusdc_balances s from;
            (newBalance, e1) = esub userBalance amount (eng s);
            e2 = allow newBalance (marketplace cfg) e1;
            e3 = allow newBalance from e2
        in Inr (amount, s\<lparr>eng := e3, cusdc_balances := (cusdc_balances s)(from := newBalance)\<rparr>))"

subsection \<open>ConfidentialVault\<close>

text \<open>\<^verbatim>\<open>deposit()\<close> of the contract documentation: the shares are
  \<open>(assets * DECIMAL_OFFSET * totalShares) / totalAssets\<close>, step by step in encrypted
  arithmetic, on the handle that \<open>vaultTransfer\<close> returns.\<close>

definition deposit :: "config \<Rightarrow> address \<Rightarrow> world \<Rightarrow> error + (handle \<times> world)" where
  "deposit cfg sender s =
     (let (dummyHandle, e1) = asEuint256 0 (eng s) in
      case vaultTransfer cfg (vault cfg) sender dummyHandle (s\<lparr>eng := e1\<rparr>) of
        Inl err \<Rightarrow> Inl err
      | Inr (actualAssets, s1) \<Rightarrow>
          let (offset, e2) = asEuint256 (DECIMAL_OFFSET cfg) (eng s1);
              (assetsScaled, e3) = emul actualAssets offset e2;
              (numerator, e4) = emul assetsScaled (totalShares s1) e3;
              (sharesReceived, e5) = ediv numerator (totalAssets s1) e4;
              (newTotalAssets, e6) = eadd (totalAssets s1) actualAssets e5;
              (newTotalShares, e7) = eadd (totalShares s1) sharesReceived e6;
              (newShares, e8) =
                 (if shares s1 sender = 0 then (sharesReceived, e7)
                  else eadd (shares s1 sender) sharesReceived e7);
              e9 = allow newTotalAssets (vault cfg) e8;
              e10 = allow newTotalShares (vault cfg) e9;
              e11 = allow newShares (vault cfg) e10;
              e12 = allow newShares sender e11
          in Inr (sharesReceived,
                  s1\<lparr>eng := e12,
                     totalAssets := newTotalAssets,
                     totalShares := newTotalShares,
                     shares := (shares s1)(sender := newShares)\<rparr>))"

text \<open>\<^verbatim>\<open>deposit(amount, inputProof)\<close> of the project summary: the caller supplies the
  encrypted amount, the shares are
  \<open>(amount * (totalShares + VIRTUAL_SHARES)) / (totalAssets + VIRTUAL_ASSETS)\<close>, and the
  grants are made on the share handle read back from storage. The closing
  \<^verbatim>\<open>cUSDC.transferFrom\<close> is not defined anywhere in the repository and is left out.\<close>

definition deposit_summary :: "config \<Rightarrow> address \<Rightarrow> uint256 \<Rightarrow> world \<Rightarrow> handle \<times> world" where
  "deposit_summary cfg sender amount s =
     (let (encryptedAmount, e1) = reencryptFromBytes amount (eng s);
          (vs, e2) = asEuint256 (VIRTUAL_SHARES cfg) e1;
          (shs, e3) = eadd (totalShares s) vs e2;
          (num, e4) = emul encryptedAmount shs e3;
          (va, e5) = asEuint256 (VIRTUAL_ASSETS cfg) e4;
          (den, e6) = eadd (totalAssets s) va e5;
          (sharesIssued, e7) = ediv num den e6;
          (newShares, e8) = eadd (shares s sender) sharesIssued e7;
          (newTotalShares, e9) = eadd (totalShares s) sharesIssued e8;
          (newTotalAssets, e10) = eadd (totalAssets s) encryptedAmount e9;
          s1 = s\<lparr>shares := (shares s)(sender := newShares),
                 totalShares := newTotalShares,
                 totalAssets := newTotalAssets\<rparr>;
          e11 = allow (shares s1 sender) sender e10;
          e12 = allow (shares s1 sender) (dao cfg) e11
      in (sharesIssued, s1\<lparr>eng := e12\<rparr>))"

subsection \<open>ConfidentialGovernanceToken\<close>

text \<open>\<^verbatim>\<open>mint(amount)\<close>, called by \<open>sender\<close> with \<open>msg.value = val\<close>.\<close>

definition mint :: "config \<Rightarrow> address \<Rightarrow> nat \<Rightarrow> nat \<Rightarrow> world \<Rightarrow> error + world" where
  "mint cfg sender val amount s =
     (if \<not> isMember s sender then Inl NotDAOMember
      else if amount * mintPrice cfg > MAX_UINT256 then Inl Panic
      else if val < amount * mintPrice cfg then Inl InsufficientETH
      else
        let (encryptedAmount, e1) = asEuint256 amount (eng s);
            (newBalance, e2) =
               (if gov_balances s sender = 0 then (encryptedAmount, e1)
                else eadd (gov_balances s sender) encryptedAmount e1);
            (newTotalSupply, e3) = eadd (totalSupply s) encryptedAmount e2;
            (flag, e4) = asEbool True e3;
            e5 = allow newBalance (cgov cfg) e4;
            e6 = allow newBalance sender e5;
            e7 = allow newBalance (dao cfg) e6;
            e8 = allow newTotalSupply (cgov cfg) e7;
            e9 = allow flag (cgov cfg) e8
        in Inr (s\<lparr>eng := e9,
                   gov_balances := (gov_balances s)(sender := newBalance),
                   totalSupply := newTotalSupply,
                   hasVotingPowerFlag := (hasVotingPowerFlag s)(sender := flag),
                   hasHeldToken := (hasHeldToken s)(sender := True)\<rparr>))"

definition gov_balanceOf :: "world \<Rightarrow> address \<Rightarrow> handle" where
  "gov_balanceOf s account = gov_balances s account"

text \<open>\<^verbatim>\<open>hasVotingPower(account)\<close> is a view: the comparison handle it builds is not
  persisted, and the decrypted boolean is \<open>balance > 0\<close>.\<close>

definition hasVotingPower :: "world \<Rightarrow> address \<Rightarrow> bool" where
  "hasVotingPower s account =
     (if \<not> hasHeldToken s account then False
      else plain (eng s) (gov_balances s account) > 0)"

subsection \<open>AzothDAO\<close>

text \<open>\<^verbatim>\<open>propose(description, encryptedAmount, recipient, votingMode)\<close>, called by
  \<open>sender\<close> with \<open>msg.value = val\<close> in block \<open>blk\<close>. The client-encrypted bytes are
  represented by the plaintext they carry. The fields of the stored struct that the
  function does not assign keep their values.\<close>

definition propose ::
  "config \<Rightarrow> address \<Rightarrow> nat \<Rightarrow> nat \<Rightarrow> string \<Rightarrow> uint256 \<Rightarrow> address \<Rightarrow> VotingMode \<Rightarrow> world
     \<Rightarrow> error + (nat \<times> world)" where
  "propose cfg sender val blk descr encryptedAmount recip mode s =
     (if \<not> isMember s sender then Inl OnlyMember
      else if \<not> hasVotingPower s sender then Inl NoVotingPower
      else if val < fee cfg then Inl FeeTooLow
      else if recip = 0 then Inl InvalidRecipient
      else if proposalCount s + 1 > MAX_UINT256 then Inl Panic
      else if blk + votingDelay cfg > MAX_UINT256 then Inl Panic
      else if blk + votingDelay cfg + votingPeriod cfg > MAX_UINT256 then Inl Panic
      else
        let proposalId = proposalCount s + 1;
            (amountHandle, e1) = reencryptFromBytes encryptedAmount (eng s);
            (forH, e2) = asEuint256 0 e1;
            (againstH, e3) = asEuint256 0 e2;
            (abstainH, e4) = asEuint256 0 e3;
            e5 = allow amountHandle (dao cfg) e4;
            e6 = allow forH (dao cfg) e5;
            e7 = allow againstH (dao cfg) e6;
            e8 = allow abstainH (dao cfg) e7;
            proposal = (proposals s proposalId)
              \<lparr>idP := proposalId,
               proposer := sender,
               description := descr,
               requestedAmount := amountHandle,
               recipient := recip,
               startBlock := blk + votingDelay cfg,
               endBlock := blk + votingDelay cfg + votingPeriod cfg,
               forVotes := forH,
               againstVotes := againstH,
               abstainVotes := abstainH,
               state := Pending,
               votingMode := mode\<rparr>
        in Inr (proposalId,
                s\<lparr>eng := e8,
                   proposalCount := proposalId,
                   proposals := (proposals s)(proposalId := proposal)\<rparr>))"

text \<open>\<^verbatim>\<open>castVote(proposalId, support)\<close>, called by \<open>sender\<close> in block \<open>blk\<close>. The
  guards are in the order of the source; the weight is the handle of the voter's whole
  governance balance.\<close>

definition castVote :: "config \<Rightarrow> address \<Rightarrow> nat \<Rightarrow> nat \<Rightarrow> VoteType \<Rightarrow> world \<Rightarrow> error + world" where
  "castVote cfg sender blk proposalId choice s =
     (let proposal = proposals s proposalId;
          receipt = receipts s proposalId sender
      in if state proposal \<noteq> Active then Inl ProposalNotActive
         else if blk < startBlock proposal then Inl VotingNotStarted
         else if blk > endBlock proposal then Inl VotingEnded
         else if hasVoted receipt then Inl AlreadyVoted
         else if \<not> hasVotingPower s sender then Inl NoVotingPower
         else
           let weight = gov_balanceOf s sender;
               receipt' = receipt\<lparr>hasVoted := True, votes := weight, support := choice\<rparr>;
               (newVotes, e1) =
                  (if choice = For then eadd (forVotes proposal) weight (eng s)
                   else if choice = Against then eadd (againstVotes proposal) weight (eng s)
                   else eadd (abstainVotes proposal) weight (eng s));
               proposal' =
                  (if choice = For then proposal\<lparr>forVotes := newVotes\<rparr>
                   else if choice = Against then proposal\<lparr>againstVotes := newVotes\<rparr>
                   else proposal\<lparr>abstainVotes := newVotes\<rparr>);
               e2 = allow newVotes (dao cfg) e1
           in Inr (s\<lparr>eng := e2,
                      proposals := (proposals s)(proposalId := proposal'),
                      receipts := (receipts s)(proposalId := (receipts s proposalId)(sender := receipt'))\<rparr>))"

text \<open>\<^verbatim>\<open>revealVotes(proposalId)\<close>: after the end block a member obtains the grant on
  the three tally handles.\<close>

definition revealVotes :: "config \<Rightarrow> address \<Rightarrow> nat \<Rightarrow> nat \<Rightarrow> world \<Rightarrow> error + world" where
  "revealVotes cfg sender blk proposalId s =
     (let proposal = proposals s proposalId
      in if \<not> isMember s sender then Inl OnlyMember
         else if blk \<le> endBlock proposal then Inl VotingNotEnded
         else if executed proposal \<or> state proposal = Canceled then Inl AlreadyExecutedOrCanceled
         else
           let e1 = allow (forVotes proposal) sender (eng s);
               e2 = allow (againstVotes proposal) sender e1;
               e3 = allow (abstainVotes proposal) sender e2
           in Inr (s\<lparr>eng := e3\<rparr>))"

text \<open>\<^verbatim>\<open>finalizeProposal(proposalId, forVotes, againstVotes)\<close>: the two tallies are
  plaintexts supplied by the caller.\<close>

definition finalizeProposal :: "config \<Rightarrow> address \<Rightarrow> nat \<Rightarrow> nat \<Rightarrow> nat \<Rightarrow> nat \<Rightarrow> world \<Rightarrow> error + world" where
  "finalizeProposal cfg sender blk proposalId forPlain againstPlain s =
     (let proposal = proposals s proposalId
      in if \<not> isMember s sender then Inl OnlyMember
         else if blk \<le> endBlock proposal then Inl VotingNotEnded
         else if state proposal \<noteq> Active \<and> state proposal \<noteq> Pending then Inl ProposalNotActive
         else if forPlain > againstPlain
           then Inr (s\<lparr>proposals := (proposals s)(proposalId := proposal\<lparr>state := Succeeded\<rparr>)\<rparr>)
           else Inr (s\<lparr>proposals := (proposals s)(proposalId := proposal\<lparr>state := Defeated\<rparr>)\<rparr>))"

subsection \<open>Transactions\<close>

text \<open>A transaction either commits the new state or reverts: the state stays as it was
  and the error is reported.\<close>

definition transact :: "(world \<Rightarrow> error + world) \<Rightarrow> world \<Rightarrow> world \<times> error option" where
  "transact f s = (case f s of Inl err \<Rightarrow> (s, Some err) | Inr s' \<Rightarrow> (s', None))"

text \<open>A freshly deployed system: no handle issued, no grant, every slot zero; a proposal
  slot never written reads as \<open>Pending\<close>, the state the life cycle starts in. Who is a
  member is decided by \<^verbatim>\<open>joinDAO\<close>, which the repository does not show, so the member
  set is a parameter.\<close>

definition emptyProposal :: Proposal where
  "emptyProposal = \<lparr>idP = 0, proposer = 0, description = [], requestedAmount = 0, recipient = 0,
     startBlock = 0, endBlock = 0, queuedTime = 0, forVotes = 0, againstVotes = 0,
     abstainVotes = 0, state = Pending, votingMode = Normal, executed = False\<rparr>"

definition emptyReceipt :: Receipt where
  "emptyReceipt = \<lparr>hasVoted = False, votes = 0, support = Against\<rparr>"

definition engine0 :: engine where
  "engine0 = \<lparr>counter = 0, plain = (\<lambda>_. 0), acl = {}\<rparr>"

definition world0 :: "(address \<Rightarrow> bool) \<Rightarrow> world" where
  "world0 mem = \<lparr>eng = engine0, cusdc_balances = (\<lambda>_. 0), totalMinted = 0, totalAssets = 0,
     totalShares = 0, shares = (\<lambda>_. 0), gov_balances = (\<lambda>_. 0), totalSupply = 0,
     hasVotingPowerFlag = (\<lambda>_. 0), hasHeldToken = (\<lambda>_. False), isMember = mem,
     proposalCount = 0, proposals = (\<lambda>_. emptyProposal), receipts = (\<lambda>_ _. emptyReceipt)\<rparr>"

text \<open>The deployment parameters of the README: 1 ETH buys 2000 cUSDC, a governance token
  costs 0.001 ETH, voting starts one block after the proposal and lasts 50400 blocks; the
  decimal offset is 1000, the virtual shares 1000 and the virtual assets 1.\<close>

definition cfg0 :: config where
  "cfg0 = \<lparr>marketplace = 101, vault = 102, cgov = 103, dao = 104,
     EXCHANGE_RATE = 2000, DECIMAL_OFFSET = 1000, VIRTUAL_SHARES = 1000, VIRTUAL_ASSETS = 1,
     mintPrice = 10 ^ 15, votingDelay = 1, votingPeriod = 50400, fee = 0\<rparr>"

subsection \<open>Sequences of transactions\<close>

text \<open>The external calls of the four contracts whose code the repository shows. The
  vault's \<^verbatim>\<open>withdraw\<close> needs \<^verbatim>\<open>vaultWithdraw\<close> and the engine's contract-side decrypt,
  which it does not show. A chain is the current block number and the storage; \<open>Mine\<close>
  advances the block, a call that reverts leaves the storage as it was.\<close>

datatype call =
    PurchaseCUSDC address nat
  | Deposit address
  | Mint address nat nat
  | Propose address nat string uint256 address VotingMode
  | CastVote address nat VoteType
  | RevealVotes address nat
  | FinalizeProposal address nat nat nat

fun exec :: "config \<Rightarrow> nat \<Rightarrow> call \<Rightarrow> world \<Rightarrow> error + world" where
  "exec cfg blk (PurchaseCUSDC sender val) s = purchaseCUSDC cfg sender val s"
| "exec cfg blk (Deposit sender) s =
     (case deposit cfg sender s of Inl err \<Rightarrow> Inl err | Inr (h, s') \<Rightarrow> Inr s')"
| "exec cfg blk (Mint sender val amount) s = mint cfg sender val amount s"
| "exec cfg blk (Propose sender val descr amount recip mode) s =
     (case propose cfg sender val blk descr amount recip mode s of
        Inl err \<Rightarrow> Inl err | Inr (i, s') \<Rightarrow> Inr s')"
| "exec cfg blk (CastVote sender proposalId choice) s = castVote cfg sender blk proposalId choice s"
| "exec cfg blk (RevealVotes sender proposalId) s = revealVotes cfg sender blk proposalId s"
| "exec cfg blk (FinalizeProposal sender proposalId forPlain againstPlain) s =
     finalizeProposal cfg sender blk proposalId forPlain againstPlain s"

definition commit :: "(world \<Rightarrow> error + world) \<Rightarrow> world \<Rightarrow> world" where
  "commit f s = fst (transact f s)"

datatype event = Mine | Call call

fun step :: "config \<Rightarrow> nat \<times> world \<Rightarrow> event \<Rightarrow> nat \<times> world" where
  "step cfg (blk, s) Mine = (Suc blk, s)"
| "step cfg (blk, s) (Call c) = (blk, commit (exec cfg blk c) s)"

definition run :: "config \<Rightarrow> nat \<times> world \<Rightarrow> event list \<Rightarrow> nat \<times> world" where
  "run cfg st evs = foldl (step cfg) st evs"

text \<open>A sequence of vote transactions, each \<open>(voter, block, proposal, choice)\<close>.\<close>

fun castVotes :: "config \<Rightarrow> (address \<times> nat \<times> nat \<times> VoteType) list \<Rightarrow> world \<Rightarrow> world" where
  "castVotes cfg [] s = s"
| "castVotes cfg ((voter, blk, proposalId, choice) # vs) s =
     castVotes cfg vs (commit (castVote cfg voter blk proposalId choice) s)"

text \<open>The storage with the voting mode of every proposal forgotten: two storages agree
  up to the voting modes exactly when their images agree.\<close>

definition erase_mode :: "world \<Rightarrow> world" where
  "erase_mode s = s\<lparr>proposals := (\<lambda>i. (proposals s i)\<lparr>votingMode := Normal\<rparr>)\<rparr>"



subsection \<open>Session delegation\<close>

















subsection \<open>A concrete history\<close>

text \<open>Members 7 and 8. Member 7 buys 2000 cUSDC for 1 ETH and mints 5 governance tokens,
  member 8 mints 3; in block 100 member 7 proposes, so that voting runs from block 101 to
  block 50501. \<open>wE\<close> is \<open>wD\<close> with the state of the proposal set to \<open>Active\<close>; there
  member 7 votes for and member 8 against, and after the end block the proposal is
  finalised with the plaintext tallies 5 and 3.\<close>

definition members0 :: "address \<Rightarrow> bool" where
  "members0 a = (a = 7 \<or> a = 8)"

definition wA :: world where
  "wA = commit (purchaseCUSDC cfg0 7 (10 ^ 18)) (world0 members0)"

definition wB :: world where
  "wB = commit (mint cfg0 7 (5 * 10 ^ 15) 5) wA"

definition wC :: world where
  "wC = commit (mint cfg0 8 (3 * 10 ^ 15) 3) wB"

definition wD :: world where
  "wD = commit (exec cfg0 100 (Propose 7 0 ''fund the library'' 42 9 Quadratic)) wC"

definition wE :: world where
  "wE = wD\<lparr>proposals := (proposals wD)(1 := (proposals wD 1)\<lparr>state := Active\<rparr>)\<rparr>"

definition wF :: world where
  "wF = commit (castVote cfg0 7 200 1 For) wE"

definition wG :: world where
  "wG = commit (castVote cfg0 8 201 1 Against) wF"

definition wH :: world where
  "wH = commit (finalizeProposal cfg0 7 50502 1 5 3) wG"

definition wV :: world where
  "wV = commit (exec cfg0 100 (Deposit 7)) wA"

definition hV :: handle where
  "hV = (case deposit cfg0 7 wA of Inl err \<Rightarrow> 0 | Inr (h, s) \<Rightarrow> h)"

text \<open>The tally handle a choice selects, and the two votes of the history.\<close>

definition tally :: "VoteType \<Rightarrow> Proposal \<Rightarrow> handle" where
  "tally choice p = (case choice of For \<Rightarrow> forVotes p | Against \<Rightarrow> againstVotes p | Abstain \<Rightarrow> abstainVotes p)"

definition votes0 :: "(address \<times> nat \<times> nat \<times> VoteType) list" where
  "votes0 = [(7, 200, 1, For), (8, 201, 1, Against)]"




section \<open>Properties\<close>

subsection \<open>What an engine operation changes\<close>

lemmas engine_ops = fresh_def asEuint256_def asEbool_def reencryptFromBytes_def eadd_def esub_def
  emul_def ediv_def allow_def isAuthorized_def

lemma fresh_handle:
  "fst (fresh v e) = Suc (counter e)"
  "fst (asEuint256 n e) = Suc (counter e)"
  "fst (asEbool b e) = Suc (counter e)"
  "fst (reencryptFromBytes v e) = Suc (counter e)"
  "fst (eadd x y e) = Suc (counter e)"
  "fst (esub x y e) = Suc (counter e)"
  "fst (emul x y e) = Suc (counter e)"
  "fst (ediv x y e) = Suc (counter e)"
  by (simp_all add: engine_ops)

lemma fresh_counter:
  "counter (snd (fresh v e)) = Suc (counter e)"
  "counter (snd (asEuint256 n e)) = Suc (counter e)"
  "counter (snd (asEbool b e)) = Suc (counter e)"
  "counter (snd (reencryptFromBytes v e)) = Suc (counter e)"
  "counter (snd (eadd x y e)) = Suc (counter e)"
  "counter (snd (esub x y e)) = Suc (counter e)"
  "counter (snd (emul x y e)) = Suc (counter e)"
  "counter (snd (ediv x y e)) = Suc (counter e)"
  "counter (allow h p e) = counter e"
  by (simp_all add: engine_ops)


lemma fresh_plain:
  "plain (snd (fresh v e)) = (plain e)(Suc (counter e) := v)"
  "plain (snd (asEuint256 n e)) = (plain e)(Suc (counter e) := of_nat n)"
  "plain (snd (reencryptFromBytes v e)) = (plain e)(Suc (counter e) := v)"
  "plain (snd (eadd x y e)) = (plain e)(Suc (counter e) := plain e x + plain e y)"
  "plain (snd (esub x y e)) = (plain e)(Suc (counter e) := plain e x - plain e y)"
  "plain (snd (emul x y e)) = (plain e)(Suc (counter e) := plain e x * plain e y)"
  "plain (snd (ediv x y e)) = (plain e)(Suc (counter e) := plain e x div plain e y)"
  "plain (allow h p e) = plain e"
  by (simp_all add: engine_ops)


subsection \<open>Evaluating the concrete history\<close>

lemma fresh_lit:
  "fresh v \<lparr>counter = c, plain = p, acl = a\<rparr> =
     (Suc c, \<lparr>counter = Suc c, plain = p(Suc c := v), acl = a\<rparr>)"
  by (simp add: fresh_def)

lemma allow_lit:
  "allow h x \<lparr>counter = c, plain = p, acl = a\<rparr> = \<lparr>counter = c, plain = p, acl = insert (h, x) a\<rparr>"
  by (simp add: allow_def)

lemmas engine_eval = fresh_lit allow_lit asEuint256_def asEbool_def reencryptFromBytes_def
  eadd_def esub_def emul_def ediv_def isAuthorized_def

lemmas contract_defs = purchaseCUSDC_def vaultTransfer_def deposit_def mint_def hasVotingPower_def
  gov_balanceOf_def propose_def castVote_def revealVotes_def finalizeProposal_def

lemmas history_defs = commit_def transact_def members0_def world0_def engine0_def cfg0_def
  emptyProposal_def emptyReceipt_def MAX_UINT256_def

lemmas history = wA_def wB_def wC_def wD_def wE_def wF_def wG_def wH_def



lemma wC_step: "mint cfg0 8 (3 * 10 ^ 15) 3 wB = Inr wC"
  by (simp add: wC_def wB_def wA_def contract_defs history_defs engine_eval Let_def)

lemma wD_step: "propose cfg0 7 0 100 ''fund the library'' 42 9 Quadratic wC = Inr (1, wD)"
  by (simp add: wD_def wC_def wB_def wA_def contract_defs history_defs engine_eval Let_def)

lemma wF_step: "castVote cfg0 7 200 1 For wE = Inr wF"
  by (simp add: history contract_defs history_defs engine_eval Let_def)

lemma wG_step: "castVote cfg0 8 201 1 Against wF = Inr wG"
  by (simp add: history contract_defs history_defs engine_eval Let_def)

lemma wH_step: "finalizeProposal cfg0 7 50502 1 5 3 wG = Inr wH"
  by (simp add: history contract_defs history_defs engine_eval Let_def)


subsection \<open>Grants go with the handle written\<close>



subsection \<open>Voting needs the stored state to be Active\<close>

lemma propose_leaves_pending:
  "propose cfg sender val blk descr amount recip mode s = Inr (i, s') \<Longrightarrow>
     state (proposals s' i) = Pending"
  by (auto simp: propose_def Let_def split_def split: if_splits)

lemma castVote_needs_active:
  "state (proposals s i) \<noteq> Active \<Longrightarrow> castVote cfg voter blk i choice s = Inl ProposalNotActive"
  by (simp add: castVote_def)

text \<open>
  Claim C2. The claim is that a proposal becomes Active by itself once the block reaches
  its start block, so that an eligible first-time voter inside the voting window is never
  turned away as not active. In the documented contract \<open>propose\<close> stores \<open>Pending\<close>,
  \<open>castVote\<close> compares the stored state with \<open>Active\<close> before it looks at the block
  number, and no function shown stores \<open>Active\<close>. In the history above the proposal of
  block 100 is open from block 101 to block 50501; member 8 holds 3 governance tokens and
  has not voted; the vote in block 101, and the one in block 50501, revert with
  \<open>ProposalNotActive\<close>.
\<close>

theorem C2_vote_in_window_rejected:
  "propose cfg0 7 0 100 ''fund the library'' 42 9 Quadratic wC = Inr (1, wD)
   \<and> startBlock (proposals wD 1) = 101 \<and> endBlock (proposals wD 1) = 50501
   \<and> hasVotingPower wD 8 \<and> \<not> hasVoted (receipts wD 1 8)
   \<and> castVote cfg0 8 101 1 For wD = Inl ProposalNotActive
   \<and> castVote cfg0 8 50501 1 For wD = Inl ProposalNotActive"
  by (simp add: history contract_defs history_defs engine_eval Let_def)

subsection \<open>Finalisation\<close>

text \<open>
  Claim C4. \<open>finalizeProposal\<close> reverts while the block has not passed the end block;
  when it succeeds the block is past the end block and the only change to the whole
  storage is the state of the proposal, which is \<open>Succeeded\<close> when the supplied plaintext
  for-tally is strictly greater than the supplied against-tally and \<open>Defeated\<close> otherwise:
  the engine, its handles and its grants are untouched, nothing is decrypted. A member
  calling after the end block on an Active or Pending proposal does succeed. With the
  tallies 5 and 3 the proposal becomes \<open>Succeeded\<close>.
\<close>

theorem C4_finalize_outcome:
  "(blk \<le> endBlock (proposals s i) \<longrightarrow> (\<exists>err. finalizeProposal cfg sender blk i forPlain againstPlain s = Inl err))
   \<and> (finalizeProposal cfg sender blk i forPlain againstPlain s = Inr s' \<longrightarrow>
        endBlock (proposals s i) < blk \<and>
        s' = s\<lparr>proposals := (proposals s)
               (i := (proposals s i)\<lparr>state := (if againstPlain < forPlain then Succeeded else Defeated)\<rparr>)\<rparr>)
   \<and> (isMember s sender \<and> endBlock (proposals s i) < blk \<and>
        (state (proposals s i) = Active \<or> state (proposals s i) = Pending) \<longrightarrow>
        (\<exists>s'. finalizeProposal cfg sender blk i forPlain againstPlain s = Inr s'))"
  by (auto simp: finalizeProposal_def Let_def)

theorem C4_witness:
  "plain (eng wG) (forVotes (proposals wG 1)) = 5
   \<and> plain (eng wG) (againstVotes (proposals wG 1)) = 3
   \<and> finalizeProposal cfg0 7 50502 1 5 3 wG = Inr wH
   \<and> state (proposals wH 1) = Succeeded
   \<and> eng wH = eng wG
   \<and> (\<exists>err. finalizeProposal cfg0 7 50501 1 5 3 wG = Inl err)"
proof -
  note C4 = C4_finalize_outcome [where cfg = cfg0 and sender = 7 and i = 1 and forPlain = 5
      and againstPlain = 3 and s = wG]
  have e: "endBlock (proposals wG 1) = 50501"
    by (simp add: history contract_defs history_defs engine_eval Let_def)
  have p: "plain (eng wG) (forVotes (proposals wG 1)) = 5"
      "plain (eng wG) (againstVotes (proposals wG 1)) = 3"
    by (simp_all add: history contract_defs history_defs engine_eval Let_def)
  from C4 [where blk = 50502 and s' = wH] wH_step
  have eq: "wH = wG\<lparr>proposals := (proposals wG)(1 := (proposals wG 1)\<lparr>state := Succeeded\<rparr>)\<rparr>"
    by simp
  have "state (proposals wH 1) = Succeeded"
    by (subst eq) simp
  moreover have "eng wH = eng wG"
    by (subst eq) simp
  moreover from C4 [where blk = 50501] e
  have "\<exists>err. finalizeProposal cfg0 7 50501 1 5 3 wG = Inl err"
    by simp
  ultimately show ?thesis
    using p wH_step by simp
qed




subsection \<open>One vote per voter\<close>

text \<open>
  Claim C5, as stated, fails on the error: the guards on the state and on the voting
  window come before the guard on the receipt. Member 7 voted in block 200; the second
  vote of member 7 in block 50502, after the end block 50501, reverts with \<open>VotingEnded\<close>.
\<close>

theorem C5_second_vote_error:
  "castVote cfg0 7 200 1 For wE = Inr wF
   \<and> hasVoted (receipts wF 1 7)
   \<and> transact (castVote cfg0 7 50502 1 For) wF = (wF, Some VotingEnded)"
  by (simp add: history contract_defs history_defs engine_eval Let_def)

lemma castVote_receipt_kept:
  "hasVoted (receipts s i voter) \<Longrightarrow> castVote cfg v blk j choice s = Inr s' \<Longrightarrow>
     receipts s' i voter = receipts s i voter"
  by (auto simp: castVote_def Let_def split_def split: if_splits)

lemma exec_receipt_kept:
  assumes "hasVoted (receipts s i voter)"
  shows "receipts (commit (exec cfg blk c) s) i voter = receipts s i voter"
proof (cases c)
  case (PurchaseCUSDC a v)
  then show ?thesis
    by (auto simp: commit_def transact_def purchaseCUSDC_def Let_def split_def split: if_splits)
next
  case (Deposit a)
  then show ?thesis
    by (auto simp: commit_def transact_def deposit_def vaultTransfer_def Let_def split_def
        split: if_splits)
next
  case (Mint a v n)
  then show ?thesis
    by (auto simp: commit_def transact_def mint_def Let_def split_def split: if_splits)
next
  case (Propose a v d amt r m)
  then show ?thesis
    by (auto simp: commit_def transact_def propose_def Let_def split_def split: if_splits)
next
  case (CastVote v j ch)
  then show ?thesis
    using assms castVote_receipt_kept [of s i voter cfg v blk j ch]
    by (cases "castVote cfg v blk j ch s") (auto simp: commit_def transact_def)
next
  case (RevealVotes a j)
  then show ?thesis
    by (auto simp: commit_def transact_def revealVotes_def Let_def split: if_splits)
next
  case (FinalizeProposal a j f g)
  then show ?thesis
    by (auto simp: commit_def transact_def finalizeProposal_def Let_def split: if_splits)
qed

lemma run_receipt_kept:
  "hasVoted (receipts s i voter) \<Longrightarrow>
     receipts (snd (run cfg (blk, s) evs)) i voter = receipts s i voter"
proof (induction evs arbitrary: blk s)
  case Nil
  then show ?case by (simp add: run_def)
next
  case (Cons ev evs)
  show ?case
  proof (cases ev)
    case Mine
    with Cons show ?thesis by (simp add: run_def)
  next
    case (Call c)
    have k: "receipts (commit (exec cfg blk c) s) i voter = receipts s i voter"
      using Cons.prems by (rule exec_receipt_kept)
    with Cons.prems have "hasVoted (receipts (commit (exec cfg blk c) s) i voter)"
      by simp
    from Cons.IH [OF this, of blk] k Call show ?thesis
      by (simp add: run_def)
  qed
qed

text \<open>
  Claim C5, amended. A successful \<open>castVote\<close> writes the receipt of (proposal, voter).
  From then on every \<open>castVote\<close> of that voter on that proposal reverts and leaves the
  whole storage, so the three tallies and every receipt, as it was; the error is
  \<open>AlreadyVoted\<close> when the proposal is still Active and the block is inside the voting
  window, and the error of the earlier guard otherwise. No sequence of later transactions
  changes the receipt.
\<close>

theorem C5_receipt_write_once:
  "(castVote cfg voter blk0 i choice0 s0 = Inr s \<longrightarrow>
      receipts s i voter = \<lparr>hasVoted = True, votes = gov_balances s0 voter, support = choice0\<rparr>)
   \<and> (hasVoted (receipts s i voter) \<longrightarrow>
      transact (castVote cfg voter blk i choice) s =
        (s, Some (if state (proposals s i) \<noteq> Active then ProposalNotActive
                  else if blk < startBlock (proposals s i) then VotingNotStarted
                  else if endBlock (proposals s i) < blk then VotingEnded
                  else AlreadyVoted))
      \<and> receipts (snd (run cfg (blk, s) evs)) i voter = receipts s i voter)"
proof (intro conjI impI)
  assume "castVote cfg voter blk0 i choice0 s0 = Inr s"
  then show "receipts s i voter = \<lparr>hasVoted = True, votes = gov_balances s0 voter, support = choice0\<rparr>"
    by (auto simp: castVote_def gov_balanceOf_def Let_def split_def split: if_splits)
next
  assume "hasVoted (receipts s i voter)"
  then show "transact (castVote cfg voter blk i choice) s =
        (s, Some (if state (proposals s i) \<noteq> Active then ProposalNotActive
                  else if blk < startBlock (proposals s i) then VotingNotStarted
                  else if endBlock (proposals s i) < blk then VotingEnded
                  else AlreadyVoted))"
    by (simp add: castVote_def transact_def Let_def)
next
  assume "hasVoted (receipts s i voter)"
  then show "receipts (snd (run cfg (blk, s) evs)) i voter = receipts s i voter"
    by (rule run_receipt_kept)
qed

theorem C5_witness:
  "castVote cfg0 7 200 1 For wE = Inr wF
   \<and> hasVoted (receipts wF 1 7)
   \<and> transact (castVote cfg0 7 300 1 Against) wF = (wF, Some AlreadyVoted)
   \<and> receipts (snd (run cfg0 (300, wF) [Call (CastVote 7 1 Against), Mine, Call (CastVote 8 1 For)])) 1 7
       = receipts wF 1 7"
proof -
  have f: "state (proposals wF 1) = Active" "startBlock (proposals wF 1) = 101"
      "endBlock (proposals wF 1) = 50501"
    by (simp_all add: history contract_defs history_defs engine_eval Let_def)
  from C5_receipt_write_once [where cfg = cfg0 and voter = 7 and ?blk0.0 = 200 and i = 1
      and ?choice0.0 = For and ?s0.0 = wE and s = wF and blk = 300 and choice = Against
      and evs = "[Call (CastVote 7 1 Against), Mine, Call (CastVote 8 1 For)]"] wF_step f
  show ?thesis by simp
qed

subsection \<open>Shares issued by a deposit\<close>

text \<open>What the deposit of the contract documentation issues: the handle that
  \<open>vaultTransfer\<close> returns is the zero dummy it was given, so the numerator is zero
  whatever the vault holds, and the depositor's balance keeps its plaintext.\<close>

lemma deposit_issues_zero:
  assumes "deposit cfg sender s = Inr (r, s')"
  shows "plain (eng s') r = 0"
  using assms
  by (auto simp: deposit_def vaultTransfer_def Let_def split_def fresh_handle fresh_counter
      fresh_plain split: if_splits)

lemma deposit_balance_kept:
  assumes "deposit cfg sender s = Inr (r, s')" and "cusdc_balances s sender \<le> counter (eng s)"
  shows "plain (eng s') (cusdc_balances s' sender) = plain (eng s) (cusdc_balances s sender)"
  using assms
  by (auto simp: deposit_def vaultTransfer_def Let_def split_def fresh_handle fresh_counter
      fresh_plain split: if_splits)

text \<open>What the deposit of the project summary issues: the formula with the two virtual
  constants, in arithmetic modulo \<open>2 ^ 256\<close>.\<close>

lemma deposit_summary_formula:
  assumes "deposit_summary cfg sender amount s = (h, s')"
    and "totalShares s \<le> counter (eng s)" and "totalAssets s \<le> counter (eng s)"
  shows "plain (eng s') h =
     (amount * (plain (eng s) (totalShares s) + of_nat (VIRTUAL_SHARES cfg)))
       div (plain (eng s) (totalAssets s) + of_nat (VIRTUAL_ASSETS cfg))"
  using assms
  by (auto simp: deposit_summary_def Let_def split_def fresh_handle fresh_counter
      fresh_plain split: if_splits)

text \<open>
  Claim C6. The claim is that the vault deposit pulls the depositor's whole cUSDC balance
  and issues \<open>(amount * (totalShares + VIRTUAL_SHARES)) / (totalAssets + VIRTUAL_ASSETS)\<close>
  shares, so that a first deposit is bounded below by the virtual-offset ratio. In the
  history member 7 holds 2000 cUSDC and the vault is empty. The documented contract's
  \<open>deposit\<close> issues a share handle whose plaintext is 0 and leaves the balance of member 7
  at 2000, where the formula of the claim gives 2000000; the deposit of the project
  summary, given the amount 2000, issues 2000000.
\<close>

theorem C6_first_deposit_issues_nothing:
  "plain (eng wA) (cusdc_balances wA 7) = 2000
   \<and> plain (eng wA) (totalAssets wA) = 0 \<and> plain (eng wA) (totalShares wA) = 0
   \<and> deposit cfg0 7 wA = Inr (hV, wV)
   \<and> plain (eng wV) hV = 0
   \<and> plain (eng wV) (shares wV 7) = 0
   \<and> plain (eng wV) (cusdc_balances wV 7) = 2000
   \<and> (2000 * (plain (eng wA) (totalShares wA) + of_nat (VIRTUAL_SHARES cfg0)))
        div (plain (eng wA) (totalAssets wA) + of_nat (VIRTUAL_ASSETS cfg0)) = 2000000
   \<and> plain (eng (snd (deposit_summary cfg0 7 2000 wA))) (fst (deposit_summary cfg0 7 2000 wA))
        = 2000000"
  by (simp add: hV_def wV_def wA_def contract_defs deposit_summary_def history_defs engine_eval Let_def)

subsection \<open>The voting mode is never read\<close>

lemma erase_mode_idem: "erase_mode (erase_mode s) = erase_mode s"
  by (simp add: erase_mode_def)

lemma castVote_erase_mode:
  "castVote cfg voter blk i choice (erase_mode s) =
     (case castVote cfg voter blk i choice s of Inl err \<Rightarrow> Inl err | Inr s' \<Rightarrow> Inr (erase_mode s'))"
  by (simp add: castVote_def erase_mode_def hasVotingPower_def gov_balanceOf_def Let_def split_def
      fun_eq_iff)

lemma commit_castVote_erase_mode:
  "commit (castVote cfg voter blk i choice) (erase_mode s) =
     erase_mode (commit (castVote cfg voter blk i choice) s)"
  by (simp add: commit_def transact_def castVote_erase_mode split: sum.splits)

lemma castVotes_erase_mode:
  "castVotes cfg vs (erase_mode s) = erase_mode (castVotes cfg vs s)"
proof (induction vs arbitrary: s)
  case Nil
  show ?case by simp
next
  case (Cons v vs)
  obtain voter blk i choice where v: "v = (voter, blk, i, choice)"
    by (cases v) auto
  show ?case
    by (simp add: v commit_castVote_erase_mode Cons.IH)
qed

lemma erase_mode_fields:
  "eng (erase_mode s) = eng s"
  "receipts (erase_mode s) = receipts s"
  "forVotes (proposals (erase_mode s) j) = forVotes (proposals s j)"
  "againstVotes (proposals (erase_mode s) j) = againstVotes (proposals s j)"
  "abstainVotes (proposals (erase_mode s) j) = abstainVotes (proposals s j)"
  "state (proposals (erase_mode s) j) = state (proposals s j)"
  by (simp_all add: erase_mode_def)

lemma propose_mode_only:
  assumes "propose cfg sender val blk descr amount recip m1 s = Inr (i, s1)"
    and "propose cfg sender val blk descr amount recip m2 s = Inr (j, s2)"
  shows "i = j \<and> erase_mode s1 = erase_mode s2"
  using assms
  by (auto simp: propose_def erase_mode_def Let_def split_def fun_eq_iff split: if_splits)

lemma castVote_adds_balance:
  assumes "castVote cfg voter blk i choice s = Inr s'"
  shows "plain (eng s') (tally choice (proposals s' i)) =
     plain (eng s) (tally choice (proposals s i)) + plain (eng s) (gov_balances s voter)"
  using assms
  by (cases choice)
     (auto simp: castVote_def tally_def gov_balanceOf_def Let_def split_def fresh_handle fresh_plain
       split: if_splits)

lemma castVotes_history: "castVotes cfg0 votes0 wE = wG"
  by (simp add: votes0_def wG_def wF_def)

text \<open>
  Claim C10. \<open>castVote\<close> never reads the voting mode. Two storages that agree up to the
  voting modes of their proposals are taken by the same sequence of vote transactions to
  storages with the same engine (so the same plaintexts behind every handle), the same
  receipts and the same three tally handles for every proposal; creating a proposal with
  \<open>Normal\<close> or with \<open>Quadratic\<close> gives the same identifier and storages that agree up to
  the mode; and a successful vote adds the plaintext of the voter's whole governance
  balance to the chosen tally, whatever the mode: no square root is taken.
\<close>

theorem C10_mode_is_ignored:
  "(erase_mode s = erase_mode t \<longrightarrow>
      eng (castVotes cfg vs s) = eng (castVotes cfg vs t) \<and>
      receipts (castVotes cfg vs s) = receipts (castVotes cfg vs t) \<and>
      forVotes (proposals (castVotes cfg vs s) j) = forVotes (proposals (castVotes cfg vs t) j) \<and>
      againstVotes (proposals (castVotes cfg vs s) j) = againstVotes (proposals (castVotes cfg vs t) j) \<and>
      abstainVotes (proposals (castVotes cfg vs s) j) = abstainVotes (proposals (castVotes cfg vs t) j))
   \<and> (propose cfg sender val blk descr amount recip Normal s = Inr (i, sN) \<and>
       propose cfg sender val blk descr amount recip Quadratic s = Inr (i', sQ) \<longrightarrow>
         i = i' \<and> erase_mode sN = erase_mode sQ)
   \<and> (castVote cfg voter blk i choice s = Inr s' \<longrightarrow>
         plain (eng s') (tally choice (proposals s' i)) =
           plain (eng s) (tally choice (proposals s i)) + plain (eng s) (gov_balances s voter))"
proof (intro conjI impI)
  assume "erase_mode s = erase_mode t"
  then have eq: "erase_mode (castVotes cfg vs s) = erase_mode (castVotes cfg vs t)"
    by (simp add: castVotes_erase_mode [symmetric])
  from arg_cong [OF eq, of eng]
  show "eng (castVotes cfg vs s) = eng (castVotes cfg vs t)"
    by (simp add: erase_mode_fields)
  from arg_cong [OF eq, of receipts]
  show "receipts (castVotes cfg vs s) = receipts (castVotes cfg vs t)"
    by (simp add: erase_mode_fields)
  from arg_cong [OF eq, of "\<lambda>w. forVotes (proposals w j)"]
  show "forVotes (proposals (castVotes cfg vs s) j) = forVotes (proposals (castVotes cfg vs t) j)"
    by (simp add: erase_mode_fields)
  from arg_cong [OF eq, of "\<lambda>w. againstVotes (proposals w j)"]
  show "againstVotes (proposals (castVotes cfg vs s) j) = againstVotes (proposals (castVotes cfg vs t) j)"
    by (simp add: erase_mode_fields)
  from arg_cong [OF eq, of "\<lambda>w. abstainVotes (proposals w j)"]
  show "abstainVotes (proposals (castVotes cfg vs s) j) = abstainVotes (proposals (castVotes cfg vs t) j)"
    by (simp add: erase_mode_fields)
next
  assume "propose cfg sender val blk descr amount recip Normal s = Inr (i, sN) \<and>
       propose cfg sender val blk descr amount recip Quadratic s = Inr (i', sQ)"
  then show "i = i'" and "erase_mode sN = erase_mode sQ"
    using propose_mode_only by blast+
next
  assume "castVote cfg voter blk i choice s = Inr s'"
  then show "plain (eng s') (tally choice (proposals s' i)) =
           plain (eng s) (tally choice (proposals s i)) + plain (eng s) (gov_balances s voter)"
    by (rule castVote_adds_balance)
qed

theorem C10_witness:
  "votingMode (proposals wE 1) = Quadratic
   \<and> votingMode (proposals (erase_mode wE) 1) = Normal
   \<and> castVotes cfg0 votes0 wE = wG
   \<and> plain (eng wG) (forVotes (proposals wG 1)) = 5
   \<and> plain (eng wG) (againstVotes (proposals wG 1)) = 3
   \<and> plain (eng (castVotes cfg0 votes0 (erase_mode wE)))
        (forVotes (proposals (castVotes cfg0 votes0 (erase_mode wE)) 1)) = 5
   \<and> plain (eng (castVotes cfg0 votes0 (erase_mode wE)))
        (againstVotes (proposals (castVotes cfg0 votes0 (erase_mode wE)) 1)) = 3
   \<and> receipts (castVotes cfg0 votes0 (erase_mode wE)) = receipts wG"
proof -
  have m: "votingMode (proposals wE 1) = Quadratic" "votingMode (proposals (erase_mode wE) 1) = Normal"
    by (simp_all add: erase_mode_def history contract_defs history_defs engine_eval Let_def)
  have p: "plain (eng wG) (forVotes (proposals wG 1)) = 5"
      "plain (eng wG) (againstVotes (proposals wG 1)) = 3"
    by (simp_all add: history contract_defs history_defs engine_eval Let_def)
  note C10 = C10_mode_is_ignored [where s = "erase_mode wE" and t = wE and cfg = cfg0
      and vs = votes0 and j = 1, THEN conjunct1, rule_format, OF erase_mode_idem]
  have q: "eng (castVotes cfg0 votes0 (erase_mode wE)) = eng wG"
    "receipts (castVotes cfg0 votes0 (erase_mode wE)) = receipts wG"
    "forVotes (proposals (castVotes cfg0 votes0 (erase_mode wE)) 1) = forVotes (proposals wG 1)"
    "againstVotes (proposals (castVotes cfg0 votes0 (erase_mode wE)) 1) = againstVotes (proposals wG 1)"
    using C10 unfolding castVotes_history by blast+
  show ?thesis
    unfolding q using m p castVotes_history by blast
qed

subsection \<open>Session vouchers\<close>










subsection \<open>The tallies stay sealed until the end block has passed\<close>






















end
